theory Spec2Isabelle
  imports Complex_Main
begin

section \<open>Guild Wars 2 trading post alerts: a model of \<^verbatim>\<open>gw2_tp_alerts.py\<close>\<close>

text \<open>
  The theory follows the Python source function by function. Python integers are
  \<open>int\<close>, exceptions are values of \<open>py_error\<close> returned on the left of a sum, the
  SQLite file is a record that every operation takes and returns, a Python dictionary is
  an insertion-ordered association list, and the wall clock is a \<open>real\<close> handed to the
  functions that read it. Strings are lists of ASCII characters: the price parser is
  modelled for ASCII input, where \<^verbatim>\<open>\d\<close> is \<open>0\<close> to \<open>9\<close>.
\<close>

subsection \<open>Exceptions\<close>

datatype value_error =
    InvalidPriceFormat
  | ItemExists int string

datatype py_error =
    ValueError value_error
  | KeyError int
  | IntegrityError
  | RateLimitHitException
  | HTTPError int
  | OtherError

subsection \<open>Strings: \<^verbatim>\<open>str.strip\<close>, \<^verbatim>\<open>str.lower\<close>, \<^verbatim>\<open>int\<close>, \<^verbatim>\<open>str\<close>\<close>

definition is_digit :: "char \<Rightarrow> bool" where
  "is_digit c = (c \<in> set ''0123456789'')"

text \<open>The ASCII characters for which \<^verbatim>\<open>str.isspace\<close> holds: tab, line feed, vertical tab,
  form feed, carriage return, the four separators \<open>0x1C\<close> to \<open>0x1F\<close>, and the space.\<close>

definition is_space :: "char \<Rightarrow> bool" where
  "is_space c = (c \<in> set [CHR 0x09, CHR 0x0A, CHR 0x0B, CHR 0x0C, CHR 0x0D,
                            CHR 0x1C, CHR 0x1D, CHR 0x1E, CHR 0x1F, CHR '' ''])"

definition strip :: "string \<Rightarrow> string" where
  "strip s = rev (dropWhile is_space (rev (dropWhile is_space s)))"

definition lower_char :: "char \<Rightarrow> char" where
  "lower_char c =
     (case map_of (zip ''ABCDEFGHIJKLMNOPQRSTUVWXYZ'' ''abcdefghijklmnopqrstuvwxyz'') c of
        Some l \<Rightarrow> l
      | None \<Rightarrow> c)"

definition lower :: "string \<Rightarrow> string" where
  "lower s = map lower_char s"

definition digit_val :: "char \<Rightarrow> int" where
  "digit_val c =
     (case map_of (zip ''0123456789'' [0, 1, 2, 3, 4, 5, 6, 7, 8, 9]) c of
        Some d \<Rightarrow> d
      | None \<Rightarrow> 0)"

text \<open>\<^verbatim>\<open>int(s)\<close> on a string of decimal digits (leading zeros allowed).\<close>

definition int_of_digits :: "string \<Rightarrow> int" where
  "int_of_digits ds = foldl (\<lambda>acc c. 10 * acc + digit_val c) 0 ds"

definition digit_char :: "nat \<Rightarrow> char" where
  "digit_char d = ''0123456789'' ! d"

text \<open>\<^verbatim>\<open>str(n)\<close> for a natural number, and for any integer.\<close>

fun str_nat :: "nat \<Rightarrow> string" where
  "str_nat n = (if n < 10 then [digit_char n] else str_nat (n div 10) @ [digit_char (n mod 10)])"

declare str_nat.simps [simp del]

definition str_int :: "int \<Rightarrow> string" where
  "str_int i = (if i < 0 then CHR ''-'' # str_nat (nat (- i)) else str_nat (nat i))"

text \<open>The format specification \<^verbatim>\<open>{v:02d}\<close>: the sign, then the digits padded with zeros on
  the left to a total width of two.\<close>

definition fmt_02d :: "int \<Rightarrow> string" where
  "fmt_02d i =
     (if i < 0 then CHR ''-'' # str_nat (nat (- i))
      else let ds = str_nat (nat i) in replicate (2 - length ds) CHR ''0'' @ ds)"

subsection \<open>The regular expressions of the price parser\<close>

text \<open>
  The fragment of \<^verbatim>\<open>re\<close> that the source uses: \<^verbatim>\<open>\d+\<close>, a literal character, sequence and
  \<^verbatim>\<open>(...)?\<close>. \<open>rx_run r s\<close> lists, in the order in which the backtracking matcher tries
  them (greedy first), what is left of \<open>s\<close> after a match of \<open>r\<close> at its start.
\<close>

datatype rx = Digits | Lit char | Seq rx rx | Opt rx

fun digit_runs :: "string \<Rightarrow> string list" where
  "digit_runs [] = []"
| "digit_runs (c # cs) = (if is_digit c then digit_runs cs @ [cs] else [])"

fun rx_run :: "rx \<Rightarrow> string \<Rightarrow> string list" where
  "rx_run Digits s = digit_runs s"
| "rx_run (Lit c) s = (case s of [] \<Rightarrow> [] | x # xs \<Rightarrow> if x = c then [xs] else [])"
| "rx_run (Seq a b) s = concat (map (rx_run b) (rx_run a s))"
| "rx_run (Opt a) s = rx_run a s @ [s]"

text \<open>\<^verbatim>\<open>re.match('^' + r + '$', s)\<close>: a match from the start of \<open>s\<close> whose rest is empty, or
  is a single final newline (which \<^verbatim>\<open>$\<close> also accepts).\<close>

definition re_match_anchored :: "rx \<Rightarrow> string \<Rightarrow> bool" where
  "re_match_anchored r s = (\<exists>rest \<in> set (rx_run r s). rest = [] \<or> rest = [CHR 0x0A])"

text \<open>\<^verbatim>\<open>re.search(r, s)\<close>: the text of the leftmost match, the first one the matcher finds
  there.\<close>

fun re_search :: "rx \<Rightarrow> string \<Rightarrow> string option" where
  "re_search r [] = (case rx_run r [] of [] \<Rightarrow> None | rest # _ \<Rightarrow> Some [])"
| "re_search r (c # cs) =
     (case rx_run r (c # cs) of
        [] \<Rightarrow> re_search r cs
      | rest # _ \<Rightarrow> Some (take (length (c # cs) - length rest) (c # cs)))"

text \<open>The pattern \<^verbatim>\<open>(\d+)u\<close> for a unit letter \<open>u\<close>; its group 1 is the match without the
  final letter.\<close>

definition amount_rx :: "char \<Rightarrow> rx" where
  "amount_rx u = Seq Digits (Lit u)"

definition search_group1 :: "char \<Rightarrow> string \<Rightarrow> string option" where
  "search_group1 u s = map_option butlast (re_search (amount_rx u) s)"

text \<open>The pattern \<^verbatim>\<open>(\d+g)?(\d+s)?(\d+c)?\<close>.\<close>

definition price_rx :: rx where
  "price_rx = Seq (Opt (amount_rx CHR ''g''))
                (Seq (Opt (amount_rx CHR ''s'')) (Opt (amount_rx CHR ''c'')))"

subsection \<open>\<^verbatim>\<open>format_price\<close> and \<^verbatim>\<open>parse_price_input\<close>\<close>

definition format_price :: "int \<Rightarrow> string" where
  "format_price copper0 =
     (let gold = copper0 div 10000;
          silver = (copper0 mod 10000) div 100;
          copper = copper0 mod 100
      in str_int gold @ ''g'' @ fmt_02d silver @ ''s'' @ fmt_02d copper @ ''c'')"

definition parse_price_input :: "string \<Rightarrow> py_error + int" where
  "parse_price_input price_str0 =
     (let price_str = lower (strip price_str0) in
      if \<not> re_match_anchored price_rx price_str then Inl (ValueError InvalidPriceFormat)
      else
        let copper = 0;
            copper = (case search_group1 CHR ''g'' price_str of
                        Some g \<Rightarrow> copper + int_of_digits g * 10000 | None \<Rightarrow> copper);
            copper = (case search_group1 CHR ''s'' price_str of
                        Some g \<Rightarrow> copper + int_of_digits g * 100 | None \<Rightarrow> copper);
            copper = (case search_group1 CHR ''c'' price_str of
                        Some g \<Rightarrow> copper + int_of_digits g | None \<Rightarrow> copper)
        in Inr copper)"

subsection \<open>The price text format of the specification\<close>

text \<open>The strings that a pattern denotes: what ``matches the structure'' means.\<close>

fun lang :: "rx \<Rightarrow> string set" where
  "lang Digits = {ds. ds \<noteq> [] \<and> (\<forall>d \<in> set ds. is_digit d)}"
| "lang (Lit c) = {[c]}"
| "lang (Seq a b) = {p @ q | p q. p \<in> lang a \<and> q \<in> lang b}"
| "lang (Opt a) = insert [] (lang a)"

definition price_structure :: "string \<Rightarrow> bool" where
  "price_structure x = (x \<in> lang price_rx)"

text \<open>
  The normalized rendering of a price text, following the specification's words: the
  amount written before each unit letter (none is 0), carried at the rate 1 gold = 100
  silver = 10000 copper so that silver and copper are below 100, gold written as it is,
  silver and copper with two digits.
\<close>

definition amount_before :: "char \<Rightarrow> string \<Rightarrow> int \<times> string" where
  "amount_before u x =
     (if u \<in> set x
      then (int_of_digits (takeWhile (\<lambda>c. c \<noteq> u) x), tl (dropWhile (\<lambda>c. c \<noteq> u) x))
      else (0, x))"

definition two_digits :: "int \<Rightarrow> string" where
  "two_digits n = [digit_char (nat (n div 10)), digit_char (nat (n mod 10))]"

definition normalize :: "string \<Rightarrow> string" where
  "normalize x =
     (let t = lower (strip x);
          (g, t1) = amount_before CHR ''g'' t;
          (s, t2) = amount_before CHR ''s'' t1;
          (c, t3) = amount_before CHR ''c'' t2;
          copper = c mod 100;
          silver = (s + c div 100) mod 100;
          gold = g + (s + c div 100) div 100
      in str_int gold @ ''g'' @ two_digits silver @ ''s'' @ two_digits copper @ ''c'')"

subsection \<open>Python dictionaries\<close>

text \<open>A dictionary keeps its keys in insertion order; assigning to a key that is present
  replaces the value where it stands.\<close>

fun dict_set :: "'k \<Rightarrow> 'v \<Rightarrow> ('k \<times> 'v) list \<Rightarrow> ('k \<times> 'v) list" where
  "dict_set k v [] = [(k, v)]"
| "dict_set k v ((k', v') # kvs) =
     (if k = k' then (k, v) # kvs else (k', v') # dict_set k v kvs)"

subsection \<open>The store: class \<^verbatim>\<open>DB\<close>\<close>

text \<open>A row of the table \<^verbatim>\<open>items\<close>, and the file: the rows of \<^verbatim>\<open>items\<close> and the single row
  of the table \<^verbatim>\<open>state\<close>. Integers are assumed to fit SQLite's 64 bits.\<close>

record item =
  item_id :: int
  name :: string
  buy_threshold :: int
  sell_threshold :: int
  lowest_seen :: int
  last_buy_price :: int
  last_sell_price :: int
  icon_url :: string

record DB =
  rows :: "item list"
  last_run :: int
  limit_until :: int
  custom_dir :: "string option"


text \<open>\<^verbatim>\<open>UPDATE items SET ... WHERE id = ?\<close>, \<^verbatim>\<open>DELETE FROM items WHERE id = ?\<close> and
  \<^verbatim>\<open>INSERT INTO items\<close>, each with the cursor's \<^verbatim>\<open>rowcount\<close>.\<close>

definition sql_update :: "(item \<Rightarrow> item) \<Rightarrow> int \<Rightarrow> item list \<Rightarrow> item list \<times> int" where
  "sql_update f i rs =
     (map (\<lambda>r. if item_id r = i then f r else r) rs,
      int (length (filter (\<lambda>r. item_id r = i) rs)))"

definition sql_delete :: "int \<Rightarrow> item list \<Rightarrow> item list \<times> int" where
  "sql_delete i rs =
     (filter (\<lambda>r. item_id r \<noteq> i) rs, int (length (filter (\<lambda>r. item_id r = i) rs)))"

definition sql_insert :: "item \<Rightarrow> item list \<Rightarrow> py_error + item list" where
  "sql_insert r rs =
     (if item_id r \<in> set (map item_id rs) then Inl IntegrityError else Inr (rs @ [r]))"

text \<open>\<^verbatim>\<open>DB.items\<close>: the dictionary from id to row.\<close>

definition db_items :: "DB \<Rightarrow> (int \<times> item) list" where
  "db_items db = foldl (\<lambda>d each. dict_set (item_id each) each d) [] (rows db)"

definition update_prices :: "DB \<Rightarrow> int \<Rightarrow> int \<Rightarrow> int \<Rightarrow> int option \<Rightarrow> DB \<times> bool" where
  "update_prices db itemId buy_price sell_price lowest =
     (let (rs, rowcount) =
            (case lowest of
               Some ls \<Rightarrow>
                 sql_update (\<lambda>r. r\<lparr>last_buy_price := buy_price, last_sell_price := sell_price,
                                    lowest_seen := ls\<rparr>) itemId (rows db)
             | None \<Rightarrow>
                 sql_update (\<lambda>r. r\<lparr>last_buy_price := buy_price, last_sell_price := sell_price\<rparr>)
                   itemId (rows db))
      in (db\<lparr>rows := rs\<rparr>, rowcount = 1))"

definition itemAdd :: "DB \<Rightarrow> int \<Rightarrow> string \<Rightarrow> string \<Rightarrow> int \<Rightarrow> int \<Rightarrow> DB \<times> (py_error + unit)" where
  "itemAdd db i nm iconUrl buy_thr sell_thr =
     (if length (filter (\<lambda>r. item_id r = i \<or> name r = nm) (rows db)) > 0
      then (db, Inl (ValueError (ItemExists i nm)))
      else
        (case sql_insert \<lparr>item_id = i, name = nm, buy_threshold = buy_thr,
                           sell_threshold = sell_thr, lowest_seen = 999999999,
                           last_buy_price = 0, last_sell_price = 0, icon_url = iconUrl\<rparr>
                (rows db) of
           Inl e \<Rightarrow> (db, Inl e)
         | Inr rs \<Rightarrow> (db\<lparr>rows := rs\<rparr>, Inr ())))"

definition itemDel :: "DB \<Rightarrow> int \<Rightarrow> DB \<times> bool" where
  "itemDel db i = (let (rs, rowcount) = sql_delete i (rows db) in (db\<lparr>rows := rs\<rparr>, rowcount = 1))"

text \<open>When neither threshold is given no statement runs, and the \<^verbatim>\<open>rowcount\<close> of a fresh
  cursor is \<open>-1\<close>.\<close>

definition itemThreshold :: "DB \<Rightarrow> int \<Rightarrow> int option \<Rightarrow> int option \<Rightarrow> DB \<times> bool" where
  "itemThreshold db i buy_thr sell_thr =
     (let (rs, rowcount) =
            (if buy_thr \<noteq> None \<and> sell_thr \<noteq> None then
               sql_update (\<lambda>r. r\<lparr>buy_threshold := the buy_thr, sell_threshold := the sell_thr,
                                  lowest_seen := 999999999\<rparr>) i (rows db)
             else if buy_thr \<noteq> None then
               sql_update (\<lambda>r. r\<lparr>buy_threshold := the buy_thr, lowest_seen := 999999999\<rparr>)
                 i (rows db)
             else if sell_thr \<noteq> None then
               sql_update (\<lambda>r. r\<lparr>sell_threshold := the sell_thr, lowest_seen := 999999999\<rparr>)
                 i (rows db)
             else (rows db, - 1))
      in (db\<lparr>rows := rs\<rparr>, rowcount = 1))"

subsection \<open>The market client: class \<^verbatim>\<open>GW2API\<close>\<close>

definition CHECK_INTERVAL :: int where
  "CHECK_INTERVAL = 300"

definition RATE_LIMIT_RETRY :: int where
  "RATE_LIMIT_RETRY = 1200"

text \<open>What \<^verbatim>\<open>urlopen\<close> does is an input of the model: a body that decodes to the expected
  JSON, a body that does not, an HTTP error status, or a transport error.\<close>

datatype 'a response = Success 'a | Malformed | HTTPStatus int | URLFailure

text \<open>\<^verbatim>\<open>int(time.time())\<close>: truncation towards zero.\<close>

definition py_int :: "real \<Rightarrow> int" where
  "py_int t = (if 0 \<le> t then \<lfloor>t\<rfloor> else \<lceil>t\<rceil>)"

definition fetch :: "real \<Rightarrow> 'a response \<Rightarrow> DB \<Rightarrow> DB \<times> (py_error + 'a)" where
  "fetch now resp db =
     (case resp of
        Success body \<Rightarrow> (db\<lparr>limit_until := 0\<rparr>, Inr body)
      | Malformed \<Rightarrow> (db\<lparr>limit_until := 0\<rparr>, Inl OtherError)
      | HTTPStatus code \<Rightarrow>
          (if code = 429
           then (db\<lparr>limit_until := py_int now + RATE_LIMIT_RETRY\<rparr>, Inl RateLimitHitException)
           else (db, Inl (HTTPError code)))
      | URLFailure \<Rightarrow> (db, Inl OtherError))"

record order =
  unit_price :: int
  quantity :: int

record listing =
  buy :: order
  sell :: order

record api_listing =
  l_id :: int
  buys :: "order list"
  sells :: "order list"

record api_item =
  i_id :: int
  i_name :: string
  i_icon :: string

definition api_items ::
  "real \<Rightarrow> api_item list response \<Rightarrow> DB \<Rightarrow> DB \<times> (py_error + (int \<times> string \<times> string) list)" where
  "api_items now resp db =
     (case fetch now resp db of
        (db', Inl e) \<Rightarrow> (db', Inl e)
      | (db', Inr body) \<Rightarrow>
          (db', Inr (foldl (\<lambda>items i. dict_set (i_id i) (i_name i, i_icon i) items) [] body)))"

definition listing_of :: "api_listing \<Rightarrow> listing" where
  "listing_of i =
     (let buy_order = (if buys i \<noteq> [] then hd (buys i) else \<lparr>unit_price = 0, quantity = 0\<rparr>);
          sell_order = (if sells i \<noteq> [] then hd (sells i) else \<lparr>unit_price = 0, quantity = 0\<rparr>)
      in \<lparr>buy = \<lparr>unit_price = unit_price buy_order, quantity = quantity buy_order\<rparr>,
          sell = \<lparr>unit_price = unit_price sell_order, quantity = quantity sell_order\<rparr>\<rparr>)"

definition listings ::
  "real \<Rightarrow> api_listing list response \<Rightarrow> DB \<Rightarrow> DB \<times> (py_error + (int \<times> listing) list)" where
  "listings now resp db =
     (case fetch now resp db of
        (db', Inl e) \<Rightarrow> (db', Inl e)
      | (db', Inr body) \<Rightarrow>
          (db', Inr (foldl (\<lambda>ls i. dict_set (l_id i) (listing_of i) ls) [] body)))"

subsection \<open>The poll loop: \<^verbatim>\<open>monitor_mode\<close>\<close>

record alert =
  a_name :: string
  a_price :: int
  a_quantity :: int
  a_threshold :: int
  a_icon :: string
  a_trigger :: string

text \<open>A line of the alert log, as the arguments of \<^verbatim>\<open>log_unusual_price\<close>.\<close>

type_synonym log_entry = "string \<times> int \<times> int \<times> int \<times> string"

text \<open>The body of the loop over the tracked items, once the listing of the item is read.\<close>

definition check_item ::
  "int \<Rightarrow> item \<Rightarrow> listing \<Rightarrow> DB \<times> log_entry list \<times> alert list \<Rightarrow> DB \<times> log_entry list \<times> alert list" where
  "check_item i props p st =
     (let current_buy = unit_price (buy p);
          buy_qty = quantity (buy p);
          current_sell = unit_price (sell p);
          sell_qty = quantity (sell p);
          db = fst (update_prices (fst st) i current_buy current_sell None);
          (lg, alert_items) =
            (if current_buy > buy_threshold props
             then (fst (snd st) @ [(name props, current_buy, buy_threshold props, buy_qty, ''buy'')],
                   snd (snd st) @
                     [\<lparr>a_name = name props, a_price = current_buy, a_quantity = buy_qty,
                       a_threshold = buy_threshold props, a_icon = icon_url props,
                       a_trigger = ''buy''\<rparr>])
             else (fst (snd st), snd (snd st)));
          (lg, alert_items) =
            (if current_sell < sell_threshold props
             then (lg @ [(name props, current_sell, sell_threshold props, sell_qty, ''sell'')],
                   alert_items @
                     [\<lparr>a_name = name props, a_price = current_sell, a_quantity = sell_qty,
                       a_threshold = sell_threshold props, a_icon = icon_url props,
                       a_trigger = ''sell''\<rparr>])
             else (lg, alert_items))
      in (db, lg, alert_items))"

text \<open>The loop: \<^verbatim>\<open>prices[id]\<close> raises \<^verbatim>\<open>KeyError\<close> when the response has no listing for a
  tracked id; what was written before stays written.\<close>

fun check_items ::
  "(int \<times> item) list \<Rightarrow> (int \<times> listing) list \<Rightarrow> DB \<times> log_entry list \<times> alert list
     \<Rightarrow> DB \<times> log_entry list \<times> (py_error + alert list)" where
  "check_items [] prices st = (fst st, fst (snd st), Inr (snd (snd st)))"
| "check_items ((i, props) # rest) prices st =
     (case map_of prices i of
        None \<Rightarrow> (fst st, fst (snd st), Inl (KeyError i))
      | Some p \<Rightarrow> check_items rest prices (check_item i props p st))"

text \<open>How one pass of the \<^verbatim>\<open>while True\<close> loop ends. \<open>Completed alerts sent\<close>: the pass ran to
  its end with \<open>alerts\<close>, and \<open>sent\<close> is what \<^verbatim>\<open>send_alert\<close> was called with, if it was.\<close>

datatype outcome =
    CooldownWait real
  | NoItems
  | RateLimited
  | FetchFailed py_error
  | CycleFailed py_error
  | Completed "alert list" "alert list option"

definition slept :: "outcome \<Rightarrow> real" where
  "slept out =
     (case out of
        CooldownWait t \<Rightarrow> t
      | NoItems \<Rightarrow> 10
      | _ \<Rightarrow> real_of_int CHECK_INTERVAL)"

definition notifier_called :: "outcome \<Rightarrow> bool" where
  "notifier_called out = (case out of Completed _ (Some _) \<Rightarrow> True | _ \<Rightarrow> False)"

text \<open>One pass: \<open>now\<close> is the clock at the cooldown check, \<open>now_f\<close> the clock inside the
  fetch, \<open>discord\<close> whether a webhook is configured, \<open>resp\<close> what the price API answers.\<close>

definition monitor_cycle ::
  "real \<Rightarrow> real \<Rightarrow> bool \<Rightarrow> api_listing list response \<Rightarrow> DB \<times> log_entry list
     \<Rightarrow> (DB \<times> log_entry list) \<times> outcome" where
  "monitor_cycle now now_f discord resp w =
     (let db = fst w; lg = snd w in
      if now < real_of_int (limit_until db) then
        (let wait_time = real_of_int (limit_until db) - now
         in (w, CooldownWait (min wait_time (real_of_int CHECK_INTERVAL))))
      else
        let items = db_items db in
        if items = [] then (w, NoItems)
        else
          (case listings now_f resp db of
             (db1, Inl RateLimitHitException) \<Rightarrow> ((db1, lg), RateLimited)
           | (db1, Inl e) \<Rightarrow> ((db1, lg), FetchFailed e)
           | (db1, Inr prices) \<Rightarrow>
               (case check_items items prices (db1, lg, []) of
                  (db2, lg2, Inl e) \<Rightarrow> ((db2, lg2), CycleFailed e)
                | (db2, lg2, Inr alert_items) \<Rightarrow>
                    ((db2, lg2),
                     Completed alert_items
                       (if alert_items \<noteq> [] \<and> discord then Some alert_items else None)))))"

subsection \<open>The commands \<^verbatim>\<open>add\<close>, \<^verbatim>\<open>del\<close> and \<^verbatim>\<open>threshold\<close>\<close>

text \<open>What a command reports: success, a caught exception, the message of a failed update
  or deletion, or an exception that nothing catches.\<close>

datatype action_result = Succeeded | Reported py_error | Failed | Uncaught py_error

fun add_loop :: "(int \<times> string \<times> string) list \<Rightarrow> string \<Rightarrow> string \<Rightarrow> DB \<Rightarrow> DB \<times> action_result" where
  "add_loop [] buy_thr sell_thr db = (db, Succeeded)"
| "add_loop ((i, nm, icon) # rest) buy_thr sell_thr db =
     (case parse_price_input buy_thr of
        Inl e \<Rightarrow> (db, Reported e)
      | Inr buy_copper \<Rightarrow>
          (case parse_price_input sell_thr of
             Inl e \<Rightarrow> (db, Reported e)
           | Inr sell_copper \<Rightarrow>
               (case itemAdd db i nm icon buy_copper sell_copper of
                  (db', Inl (ValueError v)) \<Rightarrow> (db', Reported (ValueError v))
                | (db', Inl e) \<Rightarrow> (db', Uncaught e)
                | (db', Inr _) \<Rightarrow> add_loop rest buy_thr sell_thr db')))"

definition actionAdd ::
  "real \<Rightarrow> api_item list response \<Rightarrow> int \<Rightarrow> string \<Rightarrow> string \<Rightarrow> DB \<Rightarrow> DB \<times> action_result" where
  "actionAdd now resp i buy_thr sell_thr db =
     (case api_items now resp db of
        (db', Inl e) \<Rightarrow> (db', Reported e)
      | (db', Inr items) \<Rightarrow> add_loop items buy_thr sell_thr db')"

definition actionDel :: "int \<Rightarrow> DB \<Rightarrow> DB \<times> action_result" where
  "actionDel i db = (case itemDel db i of (db', ok) \<Rightarrow> (db', if \<not> ok then Failed else Succeeded))"

text \<open>\<^verbatim>\<open>parse_price_input(x) if x else None\<close>: an absent or empty argument is not parsed.\<close>

definition parse_if_given :: "string option \<Rightarrow> py_error + int option" where
  "parse_if_given x =
     (case x of
        None \<Rightarrow> Inr None
      | Some s \<Rightarrow>
          (if s = [] then Inr None
           else (case parse_price_input s of Inl e \<Rightarrow> Inl e | Inr v \<Rightarrow> Inr (Some v))))"

definition actionThreshold :: "int \<Rightarrow> string option \<Rightarrow> string option \<Rightarrow> DB \<Rightarrow> DB \<times> action_result" where
  "actionThreshold i buy_thr sell_thr db =
     (case parse_if_given buy_thr of
        Inl e \<Rightarrow> (db, Reported e)
      | Inr buy_copper \<Rightarrow>
          (case parse_if_given sell_thr of
             Inl e \<Rightarrow> (db, Reported e)
           | Inr sell_copper \<Rightarrow>
               (case itemThreshold db i buy_copper sell_copper of
                  (db', ok) \<Rightarrow> (db', if \<not> ok then Failed else Succeeded))))"

subsection \<open>The events of the threshold rule\<close>




subsection \<open>An example store\<close>

text \<open>The store of the specification's end-to-end example: one tracked item, id 42, with
  buy threshold 500 and sell threshold 100.\<close>

definition example_item :: item where
  "example_item =
     \<lparr>item_id = 42, name = ''Mystic Coin'', buy_threshold = 500, sell_threshold = 100,
      lowest_seen = 123, last_buy_price = 0, last_sell_price = 0, icon_url = ''coin.png''\<rparr>"

definition example_db :: DB where
  "example_db = \<lparr>rows = [example_item], last_run = 0, limit_until = 0, custom_dir = None\<rparr>"

section \<open>Properties\<close>

subsection \<open>The price parser on blank input\<close>

lemma strip_all_space: "\<forall>c \<in> set x. is_space c \<Longrightarrow> strip x = []"
proof -
  assume a: "\<forall>c \<in> set x. is_space c"
  then have "dropWhile is_space x = []" by (induction x) auto
  then have "strip x = rev (dropWhile is_space (rev []))" by (simp only: strip_def)
  then show ?thesis by simp
qed

lemma parse_empty: "parse_price_input [] = Inr 0"
  by (simp add: parse_price_input_def strip_def lower_def re_match_anchored_def price_rx_def
      amount_rx_def search_group1_def)

text \<open>
  Claim C9. The price parser accepts the empty string, and every string made of white
  space only (it is stripped first), and returns 0 instead of raising the format error:
  all three groups of the pattern are optional.
\<close>

theorem empty_price_accepted:
  "parse_price_input [] = Inr 0 \<and>
   (\<forall>x. (\<forall>c \<in> set x. is_space c) \<longrightarrow> parse_price_input x = Inr 0)"
proof (intro conjI allI impI)
  show "parse_price_input [] = Inr 0" by (rule parse_empty)
next
  fix x assume "\<forall>c \<in> set x. is_space c"
  then have "strip x = []" by (rule strip_all_space)
  then have "lower (strip x) = []" by (simp add: lower_def)
  moreover have "lower (strip []) = []" by (simp add: lower_def strip_def)
  ultimately have "parse_price_input x = parse_price_input []"
    by (simp only: parse_price_input_def)
  then show "parse_price_input x = Inr 0"
    using parse_empty by simp
qed

theorem empty_price_accepted_witness:
  "is_space CHR '' '' \<and> is_space CHR 0x09 \<and> is_space CHR 0x0A \<and>
   parse_price_input [CHR '' '', CHR 0x09, CHR 0x0A] = Inr 0"
proof -
  have h: "\<forall>c \<in> set [CHR '' '', CHR 0x09, CHR 0x0A]. is_space c"
    by (simp add: is_space_def)
  from empty_price_accepted
  have "(\<forall>c \<in> set [CHR '' '', CHR 0x09, CHR 0x0A]. is_space c) \<longrightarrow>
        parse_price_input [CHR '' '', CHR 0x09, CHR 0x0A] = Inr 0"
    by blast
  with h show ?thesis by simp
qed

subsection \<open>Dictionaries and the SQL statements\<close>














subsection \<open>The store operations\<close>









subsection \<open>The loop over the tracked items\<close>


lemma check_item_db:
  "fst (check_item i props p st) =
     fst (update_prices (fst st) i (unit_price (buy p)) (unit_price (sell p)) None)"
  by (simp add: check_item_def Let_def split: prod.splits)







subsection \<open>Rate limiting\<close>

lemma py_int_future: "now < real_of_int (py_int now + RATE_LIMIT_RETRY)"
proof (cases "0 \<le> now")
  case True
  have "now < real_of_int \<lfloor>now\<rfloor> + 1200" by linarith
  with True show ?thesis unfolding py_int_def RATE_LIMIT_RETRY_def by simp
next
  case False
  have "now < real_of_int \<lceil>now\<rceil> + 1200" by linarith
  with False show ?thesis unfolding py_int_def RATE_LIMIT_RETRY_def by simp
qed

lemma listings_rate_limited:
  "listings now (HTTPStatus 429) db =
     (db\<lparr>limit_until := py_int now + RATE_LIMIT_RETRY\<rparr>, Inl RateLimitHitException)"
  by (simp add: listings_def fetch_def)

text \<open>
  Claim C2. On a response with status 429 the fetch of the market client stores
  \<open>limit_until = int(now) + RATE_LIMIT_RETRY\<close>, which is strictly later than \<open>now\<close>, and
  raises the rate-limit exception; on a successful response it stores \<open>limit_until = 0\<close>.
  A pass of the poll loop whose fetch is rate limited ends without a call of the notifier
  and sleeps for the poll interval; the cutoff it leaves in the store is later than the
  time of the fetch, and every pass that starts before the cutoff is a cooldown wait,
  again without the notifier.
\<close>

theorem rate_limit_handling:
  "snd (fetch now (HTTPStatus 429) db) = Inl RateLimitHitException \<and>
   fst (fetch now (HTTPStatus 429) db) = db\<lparr>limit_until := py_int now + RATE_LIMIT_RETRY\<rparr> \<and>
   now < real_of_int (limit_until (fst (fetch now (HTTPStatus 429) db))) \<and>
   fetch now (Success body) db = (db\<lparr>limit_until := 0\<rparr>, Inr body) \<and>
   (\<not> now < real_of_int (limit_until db) \<and> db_items db \<noteq> [] \<longrightarrow>
      (\<exists>db'. monitor_cycle now now_f discord (HTTPStatus 429) (db, lg) = ((db', lg), RateLimited) \<and>
         \<not> notifier_called RateLimited \<and>
         slept RateLimited = real_of_int CHECK_INTERVAL \<and>
         rows db' = rows db \<and>
         now_f < real_of_int (limit_until db') \<and>
         (\<forall>t t_f d resp. t < real_of_int (limit_until db') \<longrightarrow>
            (\<exists>w. monitor_cycle t t_f d resp (db', lg) = ((db', lg), CooldownWait w) \<and>
                 0 < w \<and> \<not> notifier_called (CooldownWait w)))))"
proof (intro conjI impI)
  show "snd (fetch now (HTTPStatus 429) db) = Inl RateLimitHitException"
    by (simp add: fetch_def)
  show "fst (fetch now (HTTPStatus 429) db) = db\<lparr>limit_until := py_int now + RATE_LIMIT_RETRY\<rparr>"
    by (simp add: fetch_def)
  show "now < real_of_int (limit_until (fst (fetch now (HTTPStatus 429) db)))"
    using py_int_future [of now] by (simp add: fetch_def)
  show "fetch now (Success body) db = (db\<lparr>limit_until := 0\<rparr>, Inr body)"
    by (simp add: fetch_def)
next
  assume a: "\<not> now < real_of_int (limit_until db) \<and> db_items db \<noteq> []"
  let ?db' = "db\<lparr>limit_until := py_int now_f + RATE_LIMIT_RETRY\<rparr>"
  have c: "monitor_cycle now now_f discord (HTTPStatus 429) (db, lg) = ((?db', lg), RateLimited)"
    using a by (simp add: monitor_cycle_def Let_def listings_rate_limited)
  have f: "now_f < real_of_int (limit_until ?db')"
    using py_int_future [of now_f] by simp
  have n: "\<exists>w. monitor_cycle t t_f d resp (?db', lg) = ((?db', lg), CooldownWait w) \<and>
                 0 < w \<and> \<not> notifier_called (CooldownWait w)"
    if "t < real_of_int (limit_until ?db')" for t t_f d resp
    using that by (simp add: monitor_cycle_def Let_def notifier_called_def CHECK_INTERVAL_def)
  show "\<exists>db'. monitor_cycle now now_f discord (HTTPStatus 429) (db, lg) = ((db', lg), RateLimited) \<and>
         \<not> notifier_called RateLimited \<and>
         slept RateLimited = real_of_int CHECK_INTERVAL \<and>
         rows db' = rows db \<and>
         now_f < real_of_int (limit_until db') \<and>
         (\<forall>t t_f d resp. t < real_of_int (limit_until db') \<longrightarrow>
            (\<exists>w. monitor_cycle t t_f d resp (db', lg) = ((db', lg), CooldownWait w) \<and>
                 0 < w \<and> \<not> notifier_called (CooldownWait w)))"
    apply (rule exI [of _ ?db'])
    using c f n by (simp add: notifier_called_def slept_def)
qed

theorem rate_limit_handling_witness:
  "\<not> (1000.5::real) < real_of_int (limit_until example_db) \<and> db_items example_db \<noteq> [] \<and>
   monitor_cycle 1000.5 1001.25 True (HTTPStatus 429) (example_db, []) =
     ((example_db\<lparr>limit_until := 2201\<rparr>, []), RateLimited) \<and>
   monitor_cycle 1300.5 1301 True (Success []) (example_db\<lparr>limit_until := 2201\<rparr>, []) =
     ((example_db\<lparr>limit_until := 2201\<rparr>, []), CooldownWait 300)"
proof -
  have h: "\<not> (1000.5::real) < real_of_int (limit_until example_db) \<and> db_items example_db \<noteq> []"
    by (simp add: example_db_def db_items_def)
  have p: "py_int (4005 / 4) + RATE_LIMIT_RETRY = 2201"
    by (simp add: py_int_def RATE_LIMIT_RETRY_def)
  from rate_limit_handling [of "1000.5" example_db _ "1001.25" True "[]", THEN conjunct2, THEN conjunct2,
      THEN conjunct2, THEN conjunct2, THEN mp, OF h]
  obtain db' where c: "monitor_cycle 1000.5 1001.25 True (HTTPStatus 429) (example_db, []) = ((db', []), RateLimited)"
    and n: "\<forall>t t_f d resp. t < real_of_int (limit_until db') \<longrightarrow>
            (\<exists>w. monitor_cycle t t_f d resp (db', []) = ((db', []), CooldownWait w) \<and>
                 0 < w \<and> \<not> notifier_called (CooldownWait w))"
    by blast
  have "monitor_cycle 1000.5 1001.25 True (HTTPStatus 429) (example_db, []) =
     ((example_db\<lparr>limit_until := 2201\<rparr>, []), RateLimited)"
    using h by (simp add: monitor_cycle_def Let_def listings_rate_limited p)
  with c have d: "db' = example_db\<lparr>limit_until := 2201\<rparr>" by simp
  have "(1300.5::real) < real_of_int (limit_until db')" by (simp add: d)
  with n obtain w where w: "monitor_cycle 1300.5 1301 True (Success []) (db', []) = ((db', []), CooldownWait w)"
    by blast
  have "monitor_cycle 1300.5 1301 True (Success []) (example_db\<lparr>limit_until := 2201\<rparr>, []) =
     ((example_db\<lparr>limit_until := 2201\<rparr>, []), CooldownWait 300)"
    by (simp add: monitor_cycle_def Let_def CHECK_INTERVAL_def)
  with h c d show ?thesis by simp
qed

subsection \<open>A pass of the poll loop that runs to its end\<close>











end
